theory Spec2Isabelle
  imports Complex_Main "HOL-Library.Multiset"
begin

section \<open>Table cells and text\<close>

text \<open>
  The three inputs are CSV tables read by pandas. A cell that is empty in the file is read
  as the missing value \<open>NaN\<close>, which \<open>pd.isna\<close> recognises. Python's \<open>None\<close> (used by the
  program for a column it creates itself) is a different value and is modelled by \<open>option\<close>.

  A Python string is a sequence of Unicode code points; a code point is an integer from 0
  to 1114111.
  \<open>of_literal\<close> turns a literal of this theory into the string of its code points.
\<close>

type_synonym ustr = "int list"

definition of_literal :: "string \<Rightarrow> ustr" where
  "of_literal s = map of_char s"

datatype 'a cell = NaN | Val 'a

definition isna :: "'a cell \<Rightarrow> bool" where
  "isna c = (c = NaN)"

text \<open>
  \<open>str.strip()\<close> removes the characters for which \<open>str.isspace\<close> holds: the controls 9 to 13
  and 28 to 31, the space, U+0085, U+00A0, U+1680, U+2000 to U+200A, U+2028, U+2029, U+202F,
  U+205F and U+3000.
\<close>

definition isspace :: "int \<Rightarrow> bool" where
  "isspace c = ((9 \<le> c \<and> c \<le> 13) \<or> (28 \<le> c \<and> c \<le> 32) \<or> c = 133 \<or> c = 160 \<or> c = 5760
                \<or> (8192 \<le> c \<and> c \<le> 8202) \<or> c = 8232 \<or> c = 8233 \<or> c = 8239 \<or> c = 8287
                \<or> c = 12288)"

definition strip :: "ustr \<Rightarrow> ustr" where
  "strip s = rev (dropWhile isspace (rev (dropWhile isspace s)))"

text \<open>
  \<open>str.lower()\<close> follows the Unicode character database of the interpreter (version 14.0
  for Python 3.11). Each table is a list of arithmetic progressions of code points
  \<open>(first, last, step)\<close>; the table of the lowercase mapping gives with each progression the
  difference between a character and its lowercase. U+0130 is the one character whose
  lowercase has two code points. The capital sigma U+03A3 becomes the final sigma U+03C2
  when a cased character comes before it, with only case-ignorable characters in between,
  and no cased character comes after it, again skipping case-ignorable ones; otherwise it
  becomes U+03C3. The table \<open>cased_table\<close> lists the cased characters that are not
  case-ignorable, the only ones the rule asks about.
\<close>

fun lookup_delta :: "int \<Rightarrow> (int \<times> int \<times> int \<times> int) list \<Rightarrow> int option" where
  "lookup_delta c [] = None"
| "lookup_delta c ((lo, hi, step, d) # tab) =
     (if lo \<le> c \<and> c \<le> hi \<and> (c - lo) mod step = 0 then Some d else lookup_delta c tab)"

fun in_table :: "int \<Rightarrow> (int \<times> int \<times> int) list \<Rightarrow> bool" where
  "in_table c [] = False"
| "in_table c ((lo, hi, step) # tab) =
     ((lo \<le> c \<and> c \<le> hi \<and> (c - lo) mod step = 0) \<or> in_table c tab)"

definition lower_table :: "(int \<times> int \<times> int \<times> int) list" where
  "lower_table =
     [(65, 90, 1, 32), (192, 214, 1, 32), (216, 222, 1, 32), (256, 302, 2, 1),
      (306, 310, 2, 1), (313, 327, 2, 1), (330, 374, 2, 1), (376, 376, 1, -121),
      (377, 381, 2, 1), (385, 385, 1, 210), (386, 388, 2, 1), (390, 390, 1, 206),
      (391, 391, 1, 1), (393, 394, 1, 205), (395, 395, 1, 1), (398, 398, 1, 79),
      (399, 399, 1, 202), (400, 400, 1, 203), (401, 401, 1, 1), (403, 403, 1, 205),
      (404, 404, 1, 207), (406, 406, 1, 211), (407, 407, 1, 209), (408, 408, 1, 1),
      (412, 412, 1, 211), (413, 413, 1, 213), (415, 415, 1, 214), (416, 420, 2, 1),
      (422, 422, 1, 218), (423, 423, 1, 1), (425, 425, 1, 218), (428, 428, 1, 1),
      (430, 430, 1, 218), (431, 431, 1, 1), (433, 434, 1, 217), (435, 437, 2, 1),
      (439, 439, 1, 219), (440, 440, 1, 1), (444, 444, 1, 1), (452, 452, 1, 2),
      (453, 453, 1, 1), (455, 455, 1, 2), (456, 456, 1, 1), (458, 458, 1, 2),
      (459, 475, 2, 1), (478, 494, 2, 1), (497, 497, 1, 2), (498, 500, 2, 1),
      (502, 502, 1, -97), (503, 503, 1, -56), (504, 542, 2, 1), (544, 544, 1, -130),
      (546, 562, 2, 1), (570, 570, 1, 10795), (571, 571, 1, 1), (573, 573, 1, -163),
      (574, 574, 1, 10792), (577, 577, 1, 1), (579, 579, 1, -195), (580, 580, 1, 69),
      (581, 581, 1, 71), (582, 590, 2, 1), (880, 882, 2, 1), (886, 886, 1, 1),
      (895, 895, 1, 116), (902, 902, 1, 38), (904, 906, 1, 37), (908, 908, 1, 64),
      (910, 911, 1, 63), (913, 929, 1, 32), (932, 939, 1, 32), (975, 975, 1, 8),
      (984, 1006, 2, 1), (1012, 1012, 1, -60), (1015, 1015, 1, 1), (1017, 1017, 1, -7),
      (1018, 1018, 1, 1), (1021, 1023, 1, -130), (1024, 1039, 1, 80), (1040, 1071, 1, 32),
      (1120, 1152, 2, 1), (1162, 1214, 2, 1), (1216, 1216, 1, 15), (1217, 1229, 2, 1),
      (1232, 1326, 2, 1), (1329, 1366, 1, 48), (4256, 4293, 1, 7264), (4295, 4295, 1, 7264),
      (4301, 4301, 1, 7264), (5024, 5103, 1, 38864), (5104, 5109, 1, 8), (7312, 7354, 1, -3008),
      (7357, 7359, 1, -3008), (7680, 7828, 2, 1), (7838, 7838, 1, -7615), (7840, 7934, 2, 1),
      (7944, 7951, 1, -8), (7960, 7965, 1, -8), (7976, 7983, 1, -8), (7992, 7999, 1, -8),
      (8008, 8013, 1, -8), (8025, 8031, 2, -8), (8040, 8047, 1, -8), (8072, 8079, 1, -8),
      (8088, 8095, 1, -8), (8104, 8111, 1, -8), (8120, 8121, 1, -8), (8122, 8123, 1, -74),
      (8124, 8124, 1, -9), (8136, 8139, 1, -86), (8140, 8140, 1, -9), (8152, 8153, 1, -8),
      (8154, 8155, 1, -100), (8168, 8169, 1, -8), (8170, 8171, 1, -112), (8172, 8172, 1, -7),
      (8184, 8185, 1, -128), (8186, 8187, 1, -126), (8188, 8188, 1, -9), (8486, 8486, 1, -7517),
      (8490, 8490, 1, -8383), (8491, 8491, 1, -8262), (8498, 8498, 1, 28), (8544, 8559, 1, 16),
      (8579, 8579, 1, 1), (9398, 9423, 1, 26), (11264, 11311, 1, 48), (11360, 11360, 1, 1),
      (11362, 11362, 1, -10743), (11363, 11363, 1, -3814), (11364, 11364, 1, -10727), (11367, 11371, 2, 1),
      (11373, 11373, 1, -10780), (11374, 11374, 1, -10749), (11375, 11375, 1, -10783), (11376, 11376, 1, -10782),
      (11378, 11378, 1, 1), (11381, 11381, 1, 1), (11390, 11391, 1, -10815), (11392, 11490, 2, 1),
      (11499, 11501, 2, 1), (11506, 11506, 1, 1), (42560, 42604, 2, 1), (42624, 42650, 2, 1),
      (42786, 42798, 2, 1), (42802, 42862, 2, 1), (42873, 42875, 2, 1), (42877, 42877, 1, -35332),
      (42878, 42886, 2, 1), (42891, 42891, 1, 1), (42893, 42893, 1, -42280), (42896, 42898, 2, 1),
      (42902, 42920, 2, 1), (42922, 42922, 1, -42308), (42923, 42923, 1, -42319), (42924, 42924, 1, -42315),
      (42925, 42925, 1, -42305), (42926, 42926, 1, -42308), (42928, 42928, 1, -42258), (42929, 42929, 1, -42282),
      (42930, 42930, 1, -42261), (42931, 42931, 1, 928), (42932, 42946, 2, 1), (42948, 42948, 1, -48),
      (42949, 42949, 1, -42307), (42950, 42950, 1, -35384), (42951, 42953, 2, 1), (42960, 42960, 1, 1),
      (42966, 42968, 2, 1), (42997, 42997, 1, 1), (65313, 65338, 1, 32), (66560, 66599, 1, 40),
      (66736, 66771, 1, 40), (66928, 66938, 1, 39), (66940, 66954, 1, 39), (66956, 66962, 1, 39),
      (66964, 66965, 1, 39), (68736, 68786, 1, 64), (71840, 71871, 1, 32), (93760, 93791, 1, 32),
      (125184, 125217, 1, 34)]"

definition case_ignorable_table :: "(int \<times> int \<times> int) list" where
  "case_ignorable_table =
     [(39, 39, 1), (46, 46, 1), (58, 58, 1), (94, 96, 2), (168, 168, 1),
      (173, 175, 2), (180, 180, 1), (183, 184, 1), (688, 879, 1), (884, 885, 1),
      (890, 890, 1), (900, 901, 1), (903, 903, 1), (1155, 1161, 1), (1369, 1369, 1),
      (1375, 1375, 1), (1425, 1469, 1), (1471, 1473, 2), (1474, 1476, 2), (1477, 1479, 2),
      (1524, 1524, 1), (1536, 1541, 1), (1552, 1562, 1), (1564, 1564, 1), (1600, 1600, 1),
      (1611, 1631, 1), (1648, 1648, 1), (1750, 1757, 1), (1759, 1768, 1), (1770, 1773, 1),
      (1807, 1809, 2), (1840, 1866, 1), (1958, 1968, 1), (2027, 2037, 1), (2042, 2042, 1),
      (2045, 2045, 1), (2070, 2093, 1), (2137, 2139, 1), (2184, 2184, 1), (2192, 2193, 1),
      (2200, 2207, 1), (2249, 2306, 1), (2362, 2364, 2), (2369, 2376, 1), (2381, 2381, 1),
      (2385, 2391, 1), (2402, 2403, 1), (2417, 2417, 1), (2433, 2433, 1), (2492, 2492, 1),
      (2497, 2500, 1), (2509, 2509, 1), (2530, 2531, 1), (2558, 2558, 1), (2561, 2562, 1),
      (2620, 2620, 1), (2625, 2626, 1), (2631, 2632, 1), (2635, 2637, 1), (2641, 2641, 1),
      (2672, 2673, 1), (2677, 2677, 1), (2689, 2690, 1), (2748, 2748, 1), (2753, 2757, 1),
      (2759, 2760, 1), (2765, 2765, 1), (2786, 2787, 1), (2810, 2815, 1), (2817, 2817, 1),
      (2876, 2876, 1), (2879, 2881, 2), (2882, 2884, 1), (2893, 2893, 1), (2901, 2902, 1),
      (2914, 2915, 1), (2946, 2946, 1), (3008, 3008, 1), (3021, 3021, 1), (3072, 3072, 1),
      (3076, 3076, 1), (3132, 3134, 2), (3135, 3136, 1), (3142, 3144, 1), (3146, 3149, 1),
      (3157, 3158, 1), (3170, 3171, 1), (3201, 3201, 1), (3260, 3260, 1), (3263, 3263, 1),
      (3270, 3270, 1), (3276, 3277, 1), (3298, 3299, 1), (3328, 3329, 1), (3387, 3388, 1),
      (3393, 3396, 1), (3405, 3405, 1), (3426, 3427, 1), (3457, 3457, 1), (3530, 3530, 1),
      (3538, 3540, 1), (3542, 3542, 1), (3633, 3633, 1), (3636, 3642, 1), (3654, 3662, 1),
      (3761, 3761, 1), (3764, 3772, 1), (3782, 3784, 2), (3785, 3789, 1), (3864, 3865, 1),
      (3893, 3897, 2), (3953, 3966, 1), (3968, 3972, 1), (3974, 3975, 1), (3981, 3991, 1),
      (3993, 4028, 1), (4038, 4038, 1), (4141, 4144, 1), (4146, 4151, 1), (4153, 4154, 1),
      (4157, 4158, 1), (4184, 4185, 1), (4190, 4192, 1), (4209, 4212, 1), (4226, 4226, 1),
      (4229, 4230, 1), (4237, 4237, 1), (4253, 4253, 1), (4348, 4348, 1), (4957, 4959, 1),
      (5906, 5908, 1), (5938, 5939, 1), (5970, 5971, 1), (6002, 6003, 1), (6068, 6069, 1),
      (6071, 6077, 1), (6086, 6086, 1), (6089, 6099, 1), (6103, 6103, 1), (6109, 6109, 1),
      (6155, 6159, 1), (6211, 6211, 1), (6277, 6278, 1), (6313, 6313, 1), (6432, 6434, 1),
      (6439, 6440, 1), (6450, 6450, 1), (6457, 6459, 1), (6679, 6680, 1), (6683, 6683, 1),
      (6742, 6744, 2), (6745, 6750, 1), (6752, 6754, 2), (6757, 6764, 1), (6771, 6780, 1),
      (6783, 6783, 1), (6823, 6823, 1), (6832, 6862, 1), (6912, 6915, 1), (6964, 6966, 2),
      (6967, 6970, 1), (6972, 6972, 1), (6978, 6978, 1), (7019, 7027, 1), (7040, 7041, 1),
      (7074, 7077, 1), (7080, 7081, 1), (7083, 7085, 1), (7142, 7144, 2), (7145, 7145, 1),
      (7149, 7151, 2), (7152, 7153, 1), (7212, 7219, 1), (7222, 7223, 1), (7288, 7293, 1),
      (7376, 7378, 1), (7380, 7392, 1), (7394, 7400, 1), (7405, 7405, 1), (7412, 7412, 1),
      (7416, 7417, 1), (7468, 7530, 1), (7544, 7544, 1), (7579, 7679, 1), (8125, 8127, 2),
      (8128, 8129, 1), (8141, 8143, 1), (8157, 8159, 1), (8173, 8175, 1), (8189, 8190, 1),
      (8203, 8207, 1), (8216, 8217, 1), (8228, 8228, 1), (8231, 8231, 1), (8234, 8238, 1),
      (8288, 8292, 1), (8294, 8303, 1), (8305, 8305, 1), (8319, 8319, 1), (8336, 8348, 1),
      (8400, 8432, 1), (11388, 11389, 1), (11503, 11505, 1), (11631, 11631, 1), (11647, 11647, 1),
      (11744, 11775, 1), (11823, 11823, 1), (12293, 12293, 1), (12330, 12333, 1), (12337, 12341, 1),
      (12347, 12347, 1), (12441, 12446, 1), (12540, 12542, 1), (40981, 40981, 1), (42232, 42237, 1),
      (42508, 42508, 1), (42607, 42610, 1), (42612, 42621, 1), (42623, 42623, 1), (42652, 42655, 1),
      (42736, 42737, 1), (42752, 42785, 1), (42864, 42864, 1), (42888, 42890, 1), (42994, 42996, 1),
      (43000, 43001, 1), (43010, 43010, 1), (43014, 43014, 1), (43019, 43019, 1), (43045, 43046, 1),
      (43052, 43052, 1), (43204, 43205, 1), (43232, 43249, 1), (43263, 43263, 1), (43302, 43309, 1),
      (43335, 43345, 1), (43392, 43394, 1), (43443, 43443, 1), (43446, 43449, 1), (43452, 43453, 1),
      (43471, 43471, 1), (43493, 43494, 1), (43561, 43566, 1), (43569, 43570, 1), (43573, 43574, 1),
      (43587, 43587, 1), (43596, 43596, 1), (43632, 43632, 1), (43644, 43644, 1), (43696, 43698, 2),
      (43699, 43700, 1), (43703, 43704, 1), (43710, 43711, 1), (43713, 43713, 1), (43741, 43741, 1),
      (43756, 43757, 1), (43763, 43764, 1), (43766, 43766, 1), (43867, 43871, 1), (43881, 43883, 1),
      (44005, 44005, 1), (44008, 44008, 1), (44013, 44013, 1), (64286, 64286, 1), (64434, 64450, 1),
      (65024, 65039, 1), (65043, 65043, 1), (65056, 65071, 1), (65106, 65106, 1), (65109, 65109, 1),
      (65279, 65279, 1), (65287, 65287, 1), (65294, 65294, 1), (65306, 65306, 1), (65342, 65344, 2),
      (65392, 65392, 1), (65438, 65439, 1), (65507, 65507, 1), (65529, 65531, 1), (66045, 66045, 1),
      (66272, 66272, 1), (66422, 66426, 1), (67456, 67461, 1), (67463, 67504, 1), (67506, 67514, 1),
      (68097, 68099, 1), (68101, 68102, 1), (68108, 68111, 1), (68152, 68154, 1), (68159, 68159, 1),
      (68325, 68326, 1), (68900, 68903, 1), (69291, 69292, 1), (69446, 69456, 1), (69506, 69509, 1),
      (69633, 69633, 1), (69688, 69702, 1), (69744, 69744, 1), (69747, 69748, 1), (69759, 69761, 1),
      (69811, 69814, 1), (69817, 69818, 1), (69821, 69821, 1), (69826, 69826, 1), (69837, 69837, 1),
      (69888, 69890, 1), (69927, 69931, 1), (69933, 69940, 1), (70003, 70003, 1), (70016, 70017, 1),
      (70070, 70078, 1), (70089, 70092, 1), (70095, 70095, 1), (70191, 70193, 1), (70196, 70198, 2),
      (70199, 70199, 1), (70206, 70206, 1), (70367, 70367, 1), (70371, 70378, 1), (70400, 70401, 1),
      (70459, 70460, 1), (70464, 70464, 1), (70502, 70508, 1), (70512, 70516, 1), (70712, 70719, 1),
      (70722, 70724, 1), (70726, 70726, 1), (70750, 70750, 1), (70835, 70840, 1), (70842, 70842, 1),
      (70847, 70848, 1), (70850, 70851, 1), (71090, 71093, 1), (71100, 71101, 1), (71103, 71104, 1),
      (71132, 71133, 1), (71219, 71226, 1), (71229, 71231, 2), (71232, 71232, 1), (71339, 71341, 2),
      (71344, 71349, 1), (71351, 71351, 1), (71453, 71455, 1), (71458, 71461, 1), (71463, 71467, 1),
      (71727, 71735, 1), (71737, 71738, 1), (71995, 71996, 1), (71998, 71998, 1), (72003, 72003, 1),
      (72148, 72151, 1), (72154, 72155, 1), (72160, 72160, 1), (72193, 72202, 1), (72243, 72248, 1),
      (72251, 72254, 1), (72263, 72263, 1), (72273, 72278, 1), (72281, 72283, 1), (72330, 72342, 1),
      (72344, 72345, 1), (72752, 72758, 1), (72760, 72765, 1), (72767, 72767, 1), (72850, 72871, 1),
      (72874, 72880, 1), (72882, 72883, 1), (72885, 72886, 1), (73009, 73014, 1), (73018, 73020, 2),
      (73021, 73023, 2), (73024, 73029, 1), (73031, 73031, 1), (73104, 73105, 1), (73109, 73111, 2),
      (73459, 73460, 1), (78896, 78904, 1), (92912, 92916, 1), (92976, 92982, 1), (92992, 92995, 1),
      (94031, 94031, 1), (94095, 94111, 1), (94176, 94177, 1), (94179, 94180, 1), (110576, 110579, 1),
      (110581, 110587, 1), (110589, 110590, 1), (113821, 113822, 1), (113824, 113827, 1), (118528, 118573, 1),
      (118576, 118598, 1), (119143, 119145, 1), (119155, 119170, 1), (119173, 119179, 1), (119210, 119213, 1),
      (119362, 119364, 1), (121344, 121398, 1), (121403, 121452, 1), (121461, 121461, 1), (121476, 121476, 1),
      (121499, 121503, 1), (121505, 121519, 1), (122880, 122886, 1), (122888, 122904, 1), (122907, 122913, 1),
      (122915, 122916, 1), (122918, 122922, 1), (123184, 123197, 1), (123566, 123566, 1), (123628, 123631, 1),
      (125136, 125142, 1), (125252, 125259, 1), (127995, 127999, 1), (917505, 917505, 1), (917536, 917631, 1),
      (917760, 917999, 1)]"

definition cased_table :: "(int \<times> int \<times> int) list" where
  "cased_table =
     [(65, 90, 1), (97, 122, 1), (170, 170, 1), (181, 181, 1), (186, 186, 1),
      (192, 214, 1), (216, 246, 1), (248, 442, 1), (444, 447, 1), (452, 659, 1),
      (661, 687, 1), (880, 883, 1), (886, 887, 1), (891, 893, 1), (895, 895, 1),
      (902, 904, 2), (905, 906, 1), (908, 910, 2), (911, 929, 1), (931, 1013, 1),
      (1015, 1153, 1), (1162, 1327, 1), (1329, 1366, 1), (1376, 1416, 1), (4256, 4293, 1),
      (4295, 4295, 1), (4301, 4301, 1), (4304, 4346, 1), (4349, 4351, 1), (5024, 5109, 1),
      (5112, 5117, 1), (7296, 7304, 1), (7312, 7354, 1), (7357, 7359, 1), (7424, 7467, 1),
      (7531, 7543, 1), (7545, 7578, 1), (7680, 7957, 1), (7960, 7965, 1), (7968, 8005, 1),
      (8008, 8013, 1), (8016, 8023, 1), (8025, 8031, 2), (8032, 8061, 1), (8064, 8116, 1),
      (8118, 8124, 1), (8126, 8126, 1), (8130, 8132, 1), (8134, 8140, 1), (8144, 8147, 1),
      (8150, 8155, 1), (8160, 8172, 1), (8178, 8180, 1), (8182, 8188, 1), (8450, 8450, 1),
      (8455, 8455, 1), (8458, 8467, 1), (8469, 8469, 1), (8473, 8477, 1), (8484, 8490, 2),
      (8491, 8493, 1), (8495, 8500, 1), (8505, 8505, 1), (8508, 8511, 1), (8517, 8521, 1),
      (8526, 8526, 1), (8544, 8575, 1), (8579, 8580, 1), (9398, 9449, 1), (11264, 11387, 1),
      (11390, 11492, 1), (11499, 11502, 1), (11506, 11507, 1), (11520, 11557, 1), (11559, 11559, 1),
      (11565, 11565, 1), (42560, 42605, 1), (42624, 42651, 1), (42786, 42863, 1), (42865, 42887, 1),
      (42891, 42894, 1), (42896, 42954, 1), (42960, 42961, 1), (42963, 42965, 2), (42966, 42969, 1),
      (42997, 42998, 1), (43002, 43002, 1), (43824, 43866, 1), (43872, 43880, 1), (43888, 43967, 1),
      (64256, 64262, 1), (64275, 64279, 1), (65313, 65338, 1), (65345, 65370, 1), (66560, 66639, 1),
      (66736, 66771, 1), (66776, 66811, 1), (66928, 66938, 1), (66940, 66954, 1), (66956, 66962, 1),
      (66964, 66965, 1), (66967, 66977, 1), (66979, 66993, 1), (66995, 67001, 1), (67003, 67004, 1),
      (68736, 68786, 1), (68800, 68850, 1), (71840, 71903, 1), (93760, 93823, 1), (119808, 119892, 1),
      (119894, 119964, 1), (119966, 119967, 1), (119970, 119970, 1), (119973, 119974, 1), (119977, 119980, 1),
      (119982, 119993, 1), (119995, 119997, 2), (119998, 120003, 1), (120005, 120069, 1), (120071, 120074, 1),
      (120077, 120084, 1), (120086, 120092, 1), (120094, 120121, 1), (120123, 120126, 1), (120128, 120132, 1),
      (120134, 120134, 1), (120138, 120144, 1), (120146, 120485, 1), (120488, 120512, 1), (120514, 120538, 1),
      (120540, 120570, 1), (120572, 120596, 1), (120598, 120628, 1), (120630, 120654, 1), (120656, 120686, 1),
      (120688, 120712, 1), (120714, 120744, 1), (120746, 120770, 1), (120772, 120779, 1), (122624, 122633, 1),
      (122635, 122654, 1), (125184, 125251, 1), (127280, 127305, 1), (127312, 127337, 1), (127344, 127369, 1)]"

definition lower_char :: "int \<Rightarrow> ustr" where
  "lower_char c =
     (if c < 128 then (if 65 \<le> c \<and> c \<le> 90 then [c + 32] else [c])
      else if c = 304 then [105, 775]
      else (case lookup_delta c lower_table of
              Some d \<Rightarrow> [c + d]
            | None \<Rightarrow> [c]))"

definition case_ignorable :: "int \<Rightarrow> bool" where
  "case_ignorable c = in_table c case_ignorable_table"

definition cased :: "int \<Rightarrow> bool" where
  "cased c = in_table c cased_table"

text \<open>
  \<open>before\<close> holds the characters before the sigma, the nearest first; \<open>after\<close> those
  after it.
\<close>

definition final_sigma :: "ustr \<Rightarrow> ustr \<Rightarrow> bool" where
  "final_sigma before after =
     (case dropWhile case_ignorable before of
        [] \<Rightarrow> False
      | c # _ \<Rightarrow>
          cased c \<and> (case dropWhile case_ignorable after of
                        [] \<Rightarrow> True
                      | d # _ \<Rightarrow> \<not> cased d))"

fun lower_from :: "ustr \<Rightarrow> ustr \<Rightarrow> ustr" where
  "lower_from before [] = []"
| "lower_from before (c # cs) =
     (if c = 931 then [if final_sigma before cs then 962 else 963] else lower_char c)
     @ lower_from (c # before) cs"

definition lower :: "ustr \<Rightarrow> ustr" where
  "lower s = lower_from [] s"

text \<open>
  \<open>s.replace("  ", " ")\<close>: one scan from the left; each occurrence of two adjacent spaces
  found by the scan is replaced by one space, and the scan goes on behind the occurrence.
\<close>

fun replace_double_space :: "ustr \<Rightarrow> ustr" where
  "replace_double_space (a # b # s) =
     (if a = 32 \<and> b = 32 then 32 # replace_double_space s
      else a # replace_double_space (b # s))"
| "replace_double_space s = s"

text \<open>
  \<open>normalize_name\<close>. The name columns hold text or the missing value, so \<open>str(name)\<close> is the
  name itself.
\<close>

definition normalize_name :: "ustr cell \<Rightarrow> ustr" where
  "normalize_name name =
     (if isna name then []
      else case name of Val s \<Rightarrow> replace_double_space (strip (lower s)) | NaN \<Rightarrow> [])"

text \<open>Runs of spaces: two adjacent spaces, three adjacent spaces.\<close>

fun double_space :: "ustr \<Rightarrow> bool" where
  "double_space (a # b # s) = ((a = 32 \<and> b = 32) \<or> double_space (b # s))"
| "double_space s = False"

fun triple_space :: "ustr \<Rightarrow> bool" where
  "triple_space (a # b # c # s) = ((a = 32 \<and> b = 32 \<and> c = 32) \<or> triple_space (b # c # s))"
| "triple_space s = False"


section \<open>Floating point numbers\<close>

text \<open>
  The numbers of the program are IEEE 754 binary64 values. A finite value is \<open>m * 2 ^ e\<close>
  for two integers; \<open>Fin m e\<close> holds it with \<open>m\<close> odd, or with \<open>m = 0\<close> and \<open>e = 0\<close>, so that
  equal values are equal terms. The other values are the two infinities and the
  not-a-number, which is also what pandas puts in an empty cell. The sign of a zero is not
  represented; no comparison, sum, difference or product of the program depends on it.
\<close>

datatype float64 = Fin int int | PInf | NInf | FNaN

text \<open>\<open>bit_length n\<close> is the number of binary digits of a positive integer.\<close>

function bit_length :: "int \<Rightarrow> nat" where
  "bit_length n = (if n \<le> 0 then 0 else Suc (bit_length (n div 2)))"
  by auto
termination
  by (relation "measure nat") auto

declare bit_length.simps [simp del]

function odd_part :: "int \<Rightarrow> int \<Rightarrow> float64" where
  "odd_part m e =
     (if m = 0 then Fin 0 0 else if even m then odd_part (m div 2) (e + 1) else Fin m e)"
  by auto
termination
  by (relation "measure (\<lambda>(m, e). nat \<bar>m\<bar>)") auto

declare odd_part.simps [simp del]

text \<open>
  \<open>round_frac p d\<close> is the binary64 value nearest to the fraction \<open>p / d\<close> with \<open>d > 0\<close>,
  ties to the value with an even significand. For a magnitude \<open>a\<close> with
  \<open>2 ^ x \<le> a < 2 ^ (x + 1)\<close> the unit in the last place is \<open>2 ^ t\<close> with
  \<open>t = max (x - 52) (-1074)\<close>, and the result is \<open>m * 2 ^ t\<close> for the integer \<open>m\<close> nearest to
  \<open>a / 2 ^ t\<close>. The result is an infinity when it reaches \<open>2 ^ 1024\<close>: when \<open>x\<close> exceeds 1023,
  or is 1023 and \<open>m\<close> is rounded up to \<open>2 ^ 53\<close>.
\<close>

definition round_frac :: "int \<Rightarrow> int \<Rightarrow> float64" where
  "round_frac p d =
     (if p = 0 then Fin 0 0
      else
        let a = \<bar>p\<bar>;
            x0 = int (bit_length a) - int (bit_length d);
            x = (if (if x0 \<ge> 0 then a \<ge> d * 2 ^ nat x0 else a * 2 ^ nat (- x0) \<ge> d)
                 then x0 else x0 - 1);
            t = max (x - 52) (- 1074);
            num = (if t \<ge> 0 then a else a * 2 ^ nat (- t));
            den = (if t \<ge> 0 then d * 2 ^ nat t else d);
            q = num div den;
            r = num mod den;
            m = (if 2 * r < den then q else if 2 * r > den then q + 1
                 else if even q then q else q + 1)
        in if x > 1023 \<or> (x = 1023 \<and> m \<ge> 2 ^ 53) then (if p > 0 then PInf else NInf)
           else odd_part (if p > 0 then m else - m) t)"

text \<open>The binary64 value nearest to \<open>n * 2 ^ e\<close>, and the one nearest to an integer.\<close>

definition round_scaled :: "int \<Rightarrow> int \<Rightarrow> float64" where
  "round_scaled n e = (if e \<ge> 0 then round_frac (n * 2 ^ nat e) 1 else round_frac n (2 ^ nat (- e)))"

definition float_of_int :: "int \<Rightarrow> float64" where
  "float_of_int n = round_frac n 1"

text \<open>
  Sum, difference and product of two values: the exact result, rounded. An infinity
  minus itself and an infinity times zero are not numbers.
\<close>

fun fsgn :: "float64 \<Rightarrow> int" where
  "fsgn (Fin m e) = (if m < 0 then - 1 else if m > 0 then 1 else 0)"
| "fsgn PInf = 1"
| "fsgn NInf = - 1"
| "fsgn FNaN = 0"

fun fneg :: "float64 \<Rightarrow> float64" where
  "fneg (Fin m e) = Fin (- m) e"
| "fneg PInf = NInf"
| "fneg NInf = PInf"
| "fneg FNaN = FNaN"

fun fadd :: "float64 \<Rightarrow> float64 \<Rightarrow> float64" where
  "fadd (Fin m1 e1) (Fin m2 e2) =
     (let e = min e1 e2 in round_scaled (m1 * 2 ^ nat (e1 - e) + m2 * 2 ^ nat (e2 - e)) e)"
| "fadd x y =
     (if x = FNaN \<or> y = FNaN then FNaN
      else if (x = PInf \<and> y = NInf) \<or> (x = NInf \<and> y = PInf) then FNaN
      else if x = PInf \<or> y = PInf then PInf
      else NInf)"

definition fsub :: "float64 \<Rightarrow> float64 \<Rightarrow> float64" where
  "fsub x y = fadd x (fneg y)"

fun fmul :: "float64 \<Rightarrow> float64 \<Rightarrow> float64" where
  "fmul (Fin m1 e1) (Fin m2 e2) = round_scaled (m1 * m2) (e1 + e2)"
| "fmul x y =
     (if x = FNaN \<or> y = FNaN \<or> fsgn x = 0 \<or> fsgn y = 0 then FNaN
      else if fsgn x * fsgn y > 0 then PInf else NInf)"

text \<open>
  The comparisons; each is false when an argument is not a number. \<open>feq\<close> is \<open>==\<close>.
\<close>

fun fless :: "float64 \<Rightarrow> float64 \<Rightarrow> bool" where
  "fless (Fin m1 e1) (Fin m2 e2) =
     (let e = min e1 e2 in m1 * 2 ^ nat (e1 - e) < m2 * 2 ^ nat (e2 - e))"
| "fless x y =
     (if x = FNaN \<or> y = FNaN then False
      else if x = NInf then y \<noteq> NInf
      else if y = PInf then x \<noteq> PInf
      else False)"

fun feq :: "float64 \<Rightarrow> float64 \<Rightarrow> bool" where
  "feq (Fin m1 e1) (Fin m2 e2) =
     (let e = min e1 e2 in m1 * 2 ^ nat (e1 - e) = m2 * 2 ^ nat (e2 - e))"
| "feq x y = (x \<noteq> FNaN \<and> x = y)"

definition fle :: "float64 \<Rightarrow> float64 \<Rightarrow> bool" where
  "fle x y = (fless x y \<or> feq x y)"

definition fgt :: "float64 \<Rightarrow> float64 \<Rightarrow> bool" where
  "fgt x y = fless y x"

definition fge :: "float64 \<Rightarrow> float64 \<Rightarrow> bool" where
  "fge x y = fle y x"


section \<open>String similarity: \<open>difflib\<close>\<close>

text \<open>
  The fuzzy pass calls \<open>difflib.get_close_matches(word, possibilities, n=1, cutoff)\<close> of the
  Python standard library. The library compares \<open>word\<close> (sequence \<open>b\<close> of its
  \<open>SequenceMatcher\<close>) with each candidate \<open>x\<close> (sequence \<open>a\<close>), with no junk predicate and
  with the automatic junk heuristic switched on.

  \<open>__chain_b\<close>: for each element of \<open>b\<close> the ascending list of the positions where it
  occurs; when \<open>b\<close> has at least 200 elements, an element occurring more than
  \<open>len(b) // 100 + 1\<close> times is dropped from the table.
\<close>

definition indices_of :: "ustr \<Rightarrow> int \<Rightarrow> nat list" where
  "indices_of b c = filter (\<lambda>j. b ! j = c) [0..<length b]"

definition b2j :: "ustr \<Rightarrow> int \<Rightarrow> nat list" where
  "b2j b c = (let idxs = indices_of b c; n = length b
              in if n \<ge> 200 \<and> length idxs > n div 100 + 1 then [] else idxs)"

text \<open>
  \<open>find_longest_match(alo, ahi, blo, bhi)\<close>. The dictionary \<open>j2len\<close> is only read through
  \<open>j2len.get(j-1, 0)\<close>, so it is a function with default 0; the key \<open>j-1\<close> of \<open>j = 0\<close> is
  \<open>-1\<close>, which is never present. The state of the scan is the new dictionary and the best
  block \<open>(besti, bestj, bestsize)\<close> so far.
\<close>

type_synonym block = "nat \<times> nat \<times> nat"

definition flm_step :: "(nat \<Rightarrow> nat) \<Rightarrow> nat \<Rightarrow> (nat \<Rightarrow> nat) \<times> block \<Rightarrow> nat \<Rightarrow> (nat \<Rightarrow> nat) \<times> block" where
  "flm_step j2len i st j =
     (let (newj2len, besti, bestj, bestsize) = st;
          k = (if j = 0 then 0 else j2len (j - 1)) + 1;
          newj2len' = newj2len(j := k)
      in if k > bestsize then (newj2len', Suc i - k, Suc j - k, k)
         else (newj2len', besti, bestj, bestsize))"

fun flm_inner :: "(nat \<Rightarrow> nat) \<Rightarrow> nat \<Rightarrow> nat \<Rightarrow> nat \<Rightarrow> nat list \<Rightarrow> (nat \<Rightarrow> nat) \<times> block \<Rightarrow> (nat \<Rightarrow> nat) \<times> block" where
  "flm_inner j2len i blo bhi [] st = st"
| "flm_inner j2len i blo bhi (j # js) st =
     (if j < blo then flm_inner j2len i blo bhi js st
      else if j \<ge> bhi then st
      else flm_inner j2len i blo bhi js (flm_step j2len i st j))"

fun flm_outer :: "ustr \<Rightarrow> ustr \<Rightarrow> nat \<Rightarrow> nat \<Rightarrow> nat list \<Rightarrow> (nat \<Rightarrow> nat) \<times> block \<Rightarrow> block" where
  "flm_outer a b blo bhi [] st = snd st"
| "flm_outer a b blo bhi (i # is) st =
     flm_outer a b blo bhi is
       (let (newj2len, best) = flm_inner (fst st) i blo bhi (b2j b (a ! i)) (\<lambda>_. 0, snd st)
        in (newj2len, best))"

text \<open>
  The two loops that extend the best block over equal neighbours. The set of junk elements
  is empty, so their test \<open>not isbjunk(...)\<close> is true, and the two further loops of the
  library, which extend over junk only, never run.
\<close>

function extend_left :: "ustr \<Rightarrow> ustr \<Rightarrow> nat \<Rightarrow> nat \<Rightarrow> block \<Rightarrow> block" where
  "extend_left a b alo blo (besti, bestj, bestsize) =
     (if besti > alo \<and> bestj > blo \<and> a ! (besti - 1) = b ! (bestj - 1)
      then extend_left a b alo blo (besti - 1, bestj - 1, bestsize + 1)
      else (besti, bestj, bestsize))"
  by pat_completeness auto
termination
  by (relation "measure (\<lambda>(a, b, alo, blo, besti, bestj, bestsize). besti)") auto

function extend_right :: "ustr \<Rightarrow> ustr \<Rightarrow> nat \<Rightarrow> nat \<Rightarrow> block \<Rightarrow> block" where
  "extend_right a b ahi bhi (besti, bestj, bestsize) =
     (if besti + bestsize < ahi \<and> bestj + bestsize < bhi
         \<and> a ! (besti + bestsize) = b ! (bestj + bestsize)
      then extend_right a b ahi bhi (besti, bestj, bestsize + 1)
      else (besti, bestj, bestsize))"
  by pat_completeness auto
termination
  by (relation "measure (\<lambda>(a, b, ahi, bhi, besti, bestj, bestsize). ahi - (besti + bestsize))") auto

declare extend_left.simps [simp del]
declare extend_right.simps [simp del]

definition find_longest_match :: "ustr \<Rightarrow> ustr \<Rightarrow> nat \<Rightarrow> nat \<Rightarrow> nat \<Rightarrow> nat \<Rightarrow> block" where
  "find_longest_match a b alo ahi blo bhi =
     extend_right a b ahi bhi
       (extend_left a b alo blo
          (flm_outer a b blo bhi [alo..<ahi] (\<lambda>_. 0, (alo, blo, 0))))"


text \<open>
  The block found lies inside the window it was searched in. \<open>lenP\<close> is the invariant of
  the dictionary of run lengths, \<open>good\<close> the one of the best block.
\<close>

definition lenP :: "nat \<Rightarrow> nat \<Rightarrow> nat \<Rightarrow> (nat \<Rightarrow> nat) \<Rightarrow> bool" where
  "lenP alo blo n f = (\<forall>j. f j + alo \<le> n \<and> (0 < f j \<longrightarrow> f j + blo \<le> Suc j))"

fun good :: "nat \<Rightarrow> nat \<Rightarrow> nat \<Rightarrow> nat \<Rightarrow> block \<Rightarrow> bool" where
  "good alo ahi blo bhi (i, j, k) =
     ((k = 0 \<and> i = alo \<and> j = blo) \<or> (0 < k \<and> alo \<le> i \<and> i + k \<le> ahi \<and> blo \<le> j \<and> j + k \<le> bhi))"

lemma flm_step_good:
  assumes "alo \<le> i" "i < ahi" "blo \<le> j" "j < bhi" "lenP alo blo i j2len"
    and "lenP alo blo (Suc i) (fst st)" "good alo ahi blo bhi (snd st)"
  shows "lenP alo blo (Suc i) (fst (flm_step j2len i st j)) \<and> good alo ahi blo bhi (snd (flm_step j2len i st j))"
proof -
  obtain nj bi bj bs where st: "st = (nj, bi, bj, bs)" by (cases st) auto
  define k where "k = (if j = 0 then 0 else j2len (j - 1)) + 1"
  have a: "j2len (j - 1) + alo \<le> i" "0 < j2len (j - 1) \<Longrightarrow> j2len (j - 1) + blo \<le> Suc (j - 1)"
    using assms(5) unfolding lenP_def by auto
  have k1: "k + alo \<le> Suc i" using assms(1) a(1) unfolding k_def by auto
  have k2: "k + blo \<le> Suc j" using assms(3) a(2) unfolding k_def by (cases "j2len (j - 1)") auto
  have k0: "0 < k" unfolding k_def by simp
  have l: "lenP alo blo (Suc i) (nj(j := k))"
    using assms(6) k1 k2 unfolding lenP_def st by auto
  have g: "good alo ahi blo bhi (Suc i - k, Suc j - k, k)"
    using k0 k1 k2 assms(2,4) by auto
  show ?thesis
    using l g assms(7) unfolding flm_step_def st k_def[symmetric] Let_def by auto
qed

lemma flm_inner_good:
  assumes "alo \<le> i" "i < ahi" "lenP alo blo i j2len"
  shows "lenP alo blo (Suc i) (fst st) \<Longrightarrow> good alo ahi blo bhi (snd st) \<Longrightarrow>
     lenP alo blo (Suc i) (fst (flm_inner j2len i blo bhi js st)) \<and> good alo ahi blo bhi (snd (flm_inner j2len i blo bhi js st))"
proof (induction js arbitrary: st)
  case Nil
  then show ?case by simp
next
  case (Cons j js)
  show ?case
  proof (cases "j < blo \<or> bhi \<le> j")
    case True
    then show ?thesis using Cons by auto
  next
    case False
    then have r: "blo \<le> j" "j < bhi" by auto
    from flm_step_good[OF assms(1,2) r assms(3) Cons.prems]
    have "lenP alo blo (Suc i) (fst (flm_step j2len i st j))" "good alo ahi blo bhi (snd (flm_step j2len i st j))"
      by auto
    from Cons.IH[OF this] show ?thesis using False by simp
  qed
qed

lemma lenP_zero: "alo \<le> n \<Longrightarrow> lenP alo blo n (\<lambda>_. 0)"
  by (simp add: lenP_def)

lemma flm_outer_good:
  "lenP alo blo i (fst st) \<Longrightarrow> good alo ahi blo bhi (snd st) \<Longrightarrow> alo \<le> i \<Longrightarrow>
     good alo ahi blo bhi (flm_outer a b blo bhi [i..<ahi] st)"
proof (induction "ahi - i" arbitrary: i st)
  case 0
  then show ?case by simp
next
  case (Suc n)
  then have lt: "i < ahi" by simp
  let ?st' = "flm_inner (fst st) i blo bhi (b2j b (a ! i)) (\<lambda>_. 0, snd st)"
  have "lenP alo blo (Suc i) (fst ?st') \<and> good alo ahi blo bhi (snd ?st')"
    by (rule flm_inner_good[OF Suc.prems(3) lt Suc.prems(1)]) (use Suc.prems in \<open>auto intro: lenP_zero\<close>)
  then have "good alo ahi blo bhi (flm_outer a b blo bhi [Suc i..<ahi] ?st')"
    using Suc.hyps(1)[of "Suc i" ?st'] Suc.hyps(2) Suc.prems(3) by auto
  then show ?case using lt by (simp add: upt_conv_Cons case_prod_beta)
qed

lemma extend_left_good:
  "good alo ahi blo bhi blk \<Longrightarrow> good alo ahi blo bhi (extend_left a b alo blo blk)"
proof (induction a b alo blo blk rule: extend_left.induct)
  case (1 a b alo blo besti bestj bestsize)
  show ?case
  proof (cases "besti > alo \<and> bestj > blo \<and> a ! (besti - 1) = b ! (bestj - 1)")
    case True
    then have "good alo ahi blo bhi (besti - 1, bestj - 1, bestsize + 1)"
      using "1.prems" by auto
    then show ?thesis using "1.IH" True by (subst extend_left.simps) simp
  next
    case False
    then show ?thesis using "1.prems" by (subst extend_left.simps) auto
  qed
qed

lemma extend_right_good:
  "good alo ahi blo bhi blk \<Longrightarrow> good alo ahi blo bhi (extend_right a b ahi bhi blk)"
proof (induction a b ahi bhi blk rule: extend_right.induct)
  case (1 a b ahi bhi besti bestj bestsize)
  show ?case
  proof (cases "besti + bestsize < ahi \<and> bestj + bestsize < bhi \<and> a ! (besti + bestsize) = b ! (bestj + bestsize)")
    case True
    then have "good alo ahi blo bhi (besti, bestj, bestsize + 1)"
      using "1.prems" by auto
    then show ?thesis using "1.IH" True by (subst extend_right.simps) simp
  next
    case False
    then show ?thesis using "1.prems" by (subst extend_right.simps) auto
  qed
qed

lemma find_longest_match_good: "good alo ahi blo bhi (find_longest_match a b alo ahi blo bhi)"
  unfolding find_longest_match_def
  by (intro extend_right_good extend_left_good flm_outer_good) (auto simp: lenP_def)

lemma find_longest_match_bounds:
  "find_longest_match a b alo ahi blo bhi = (i, j, k) \<Longrightarrow> k \<noteq> 0 \<Longrightarrow>
     alo \<le> i \<and> i + k \<le> ahi \<and> blo \<le> j \<and> j + k \<le> bhi"
  using find_longest_match_good[of alo ahi blo bhi a b] by auto

lemma find_longest_match_window:
  assumes "(i, y) = find_longest_match a b alo ahi blo bhi" "(j, k) = y" "k \<noteq> 0"
  shows "alo \<le> i \<and> i + k \<le> ahi \<and> blo \<le> j \<and> j + k \<le> bhi"
proof -
  have "find_longest_match a b alo ahi blo bhi = (i, j, k)"
    using assms(1,2) by simp
  then show ?thesis using assms(3) by (rule find_longest_match_bounds)
qed

text \<open>
  \<open>get_matching_blocks\<close>: a work list of windows, used as a stack (the head of the list is
  the element that \<open>queue.pop()\<close> takes; the left window is pushed first, the right one
  second). The library then sorts the blocks, merges adjacent ones and appends the
  sentinel \<open>(la, lb, 0)\<close>; \<open>ratio\<close> only sums the sizes, which those steps leave unchanged.
\<close>

function matching_loop :: "ustr \<Rightarrow> ustr \<Rightarrow> (nat \<times> nat \<times> nat \<times> nat) list \<Rightarrow> block list \<Rightarrow> block list" where
  "matching_loop a b [] matching_blocks = matching_blocks"
| "matching_loop a b ((alo, ahi, blo, bhi) # queue) matching_blocks =
     (case find_longest_match a b alo ahi blo bhi of
        (i, j, k) \<Rightarrow>
          if k \<noteq> 0
          then matching_loop a b
                 ((if i + k < ahi \<and> j + k < bhi then [(i + k, ahi, j + k, bhi)] else [])
                  @ (if alo < i \<and> blo < j then [(alo, i, blo, j)] else []) @ queue)
                 (matching_blocks @ [(i, j, k)])
          else matching_loop a b queue matching_blocks)"
  by pat_completeness auto
termination
proof (relation "measure (\<lambda>(a, b, queue, blocks).
          sum_list (map (\<lambda>(alo, ahi, blo, bhi). 2 * ((ahi - alo) + (bhi - blo)) + 1) queue))",
       goal_cases)
  case 1
  show ?case by simp
next
  case 2
  from find_longest_match_window[OF 2] 2(3) show ?case by auto
next
  case 3
  then show ?case by simp
qed

definition get_matching_blocks :: "ustr \<Rightarrow> ustr \<Rightarrow> block list" where
  "get_matching_blocks a b = matching_loop a b [(0, length a, 0, length b)] []"

text \<open>
  \<open>_calculate_ratio\<close> computes \<open>2.0 * matches / length\<close> in floating point, which is the
  fraction \<open>2 * matches / length\<close> rounded once. This theory holds the fraction itself.
  Rounding keeps the order of two such fractions and of such a fraction and the cutoff when
  the lengths are below a million, as two different ones are then further apart than the
  values of binary64 near them; so the comparisons below give what the library gives.
\<close>

definition calculate_ratio :: "nat \<Rightarrow> nat \<Rightarrow> rat" where
  "calculate_ratio matches len = (if len \<noteq> 0 then 2 * of_nat matches / of_nat len else 1)"

definition ratio :: "ustr \<Rightarrow> ustr \<Rightarrow> rat" where
  "ratio a b =
     calculate_ratio (sum_list (map (\<lambda>(i, j, k). k) (get_matching_blocks a b)))
       (length a + length b)"

text \<open>
  \<open>quick_ratio\<close>: \<open>fullbcount\<close> counts the occurrences of each element in \<open>b\<close>; \<open>avail\<close>
  records, per element, how many of them are left.
\<close>

fun quick_loop :: "ustr \<Rightarrow> (int \<rightharpoonup> int) \<Rightarrow> nat \<Rightarrow> ustr \<Rightarrow> nat" where
  "quick_loop b avail matches [] = matches"
| "quick_loop b avail matches (elt # rest) =
     (let numb = (case avail elt of Some n \<Rightarrow> n | None \<Rightarrow> int (count_list b elt))
      in quick_loop b (avail(elt \<mapsto> numb - 1))
           (if numb > 0 then matches + 1 else matches) rest)"

definition quick_ratio :: "ustr \<Rightarrow> ustr \<Rightarrow> rat" where
  "quick_ratio a b = calculate_ratio (quick_loop b Map.empty 0 a) (length a + length b)"

definition real_quick_ratio :: "ustr \<Rightarrow> ustr \<Rightarrow> rat" where
  "real_quick_ratio a b = calculate_ratio (min (length a) (length b)) (length a + length b)"

text \<open>
  \<open>get_close_matches\<close> collects the pairs \<open>(score, x)\<close> of the candidates that pass the
  three tests and returns the best \<open>n\<close> of them by \<open>heapq.nlargest\<close>. For \<open>n = 1\<close> that is
  \<open>max\<close> of the list of pairs: Python compares the pairs as tuples, the score first and the
  strings next, strings by code point with a proper prefix smaller; \<open>max\<close> keeps the first of
  several equal maxima. The checks of the arguments (\<open>n > 0\<close>, cutoff in \<open>[0, 1]\<close>) pass for
  the values the program gives.
\<close>

fun str_less :: "ustr \<Rightarrow> ustr \<Rightarrow> bool" where
  "str_less [] [] = False"
| "str_less [] (y # ys) = True"
| "str_less (x # xs) [] = False"
| "str_less (x # xs) (y # ys) =
     (x < y \<or> (x = y \<and> str_less xs ys))"

definition tuple_less :: "rat \<times> ustr \<Rightarrow> rat \<times> ustr \<Rightarrow> bool" where
  "tuple_less p q = (fst p < fst q \<or> (fst p = fst q \<and> str_less (snd p) (snd q)))"

fun py_max :: "rat \<times> ustr \<Rightarrow> (rat \<times> ustr) list \<Rightarrow> rat \<times> ustr" where
  "py_max m [] = m"
| "py_max m (x # xs) = py_max (if tuple_less m x then x else m) xs"

definition nlargest1 :: "(rat \<times> ustr) list \<Rightarrow> (rat \<times> ustr) list" where
  "nlargest1 result = (case result of [] \<Rightarrow> [] | x # xs \<Rightarrow> [py_max x xs])"

definition passes :: "rat \<Rightarrow> ustr \<Rightarrow> ustr \<Rightarrow> bool" where
  "passes cutoff word x =
     (real_quick_ratio x word \<ge> cutoff \<and> quick_ratio x word \<ge> cutoff \<and> ratio x word \<ge> cutoff)"

definition get_close_matches :: "ustr \<Rightarrow> ustr list \<Rightarrow> rat \<Rightarrow> ustr list" where
  "get_close_matches word possibilities cutoff =
     map snd (nlargest1 (map (\<lambda>x. (ratio x word, x)) (filter (passes cutoff word) possibilities)))"


section \<open>The tables\<close>

text \<open>
  The constants of the program. The cutoff is compared with the fractions of the previous
  section and is held as a fraction; the fee and the rate enter floating point operations.
\<close>

definition ANNUAL_FEE :: float64 where
  "ANNUAL_FEE = float_of_int 120"


definition FUZZY_CUTOFF :: rat where
  "FUZZY_CUTOFF = 86 / 100"

text \<open>
  The value of a cell whose column pandas may read as integers, as floats or as text: the
  identifiers, the selection flag, the dates. An empty cell is the float not-a-number.
  A column of the words \<open>True\<close> and \<open>False\<close> is read as booleans, which compare as the
  integers 1 and 0.
\<close>

datatype scalar = IntV int | FloatV float64 | StrV ustr

definition isna_scalar :: "scalar \<Rightarrow> bool" where
  "isna_scalar v = (v = FloatV FNaN)"

text \<open>
  \<open>column == value\<close>, for one cell of the column: numbers are compared as numbers, an
  integer and a float after the conversion of the integer to a float; text is compared
  with text; a number and a text are not equal; the not-a-number equals nothing.
\<close>

fun series_eq :: "scalar \<Rightarrow> scalar \<Rightarrow> bool" where
  "series_eq (IntV a) (IntV b) = (a = b)"
| "series_eq (IntV a) (FloatV y) = feq (float_of_int a) y"
| "series_eq (FloatV x) (IntV b) = feq x (float_of_int b)"
| "series_eq (FloatV x) (FloatV y) = feq x y"
| "series_eq (StrV s) (StrV t) = (s = t)"
| "series_eq x y = False"

text \<open>
  \<open>value in set\<close>, for one element of the set: the hash of a number is that of its exact
  value, so an integer and a float are the same element only when they are the same number.
\<close>

fun exact_int :: "int \<Rightarrow> float64 \<Rightarrow> bool" where
  "exact_int a (Fin m e) = (if e \<ge> 0 then a = m * 2 ^ nat e else a * 2 ^ nat (- e) = m)"
| "exact_int a y = False"

fun set_eq :: "scalar \<Rightarrow> scalar \<Rightarrow> bool" where
  "set_eq (IntV a) (IntV b) = (a = b)"
| "set_eq (IntV a) (FloatV y) = exact_int a y"
| "set_eq (FloatV x) (IntV b) = exact_int b x"
| "set_eq (FloatV x) (FloatV y) = feq x y"
| "set_eq (StrV s) (StrV t) = (s = t)"
| "set_eq x y = False"

text \<open>
  A row of \<open>members.csv\<close> with the column \<open>NormalizedName\<close> that preprocessing adds, and a
  row of \<open>selected_players\<close>, which has four more columns. The name is text or missing. The
  column \<open>PaymentDate\<close> starts as \<open>None\<close> and later holds the cell of a payment.
\<close>

record member =
  m_StudentID :: scalar
  m_FullName :: "ustr cell"
  m_Team :: scalar
  m_IsSelectedOfficialTeam :: scalar
  m_NormalizedName :: ustr

datatype paid_status = Paid | Underpaid | Unpaid

record player = member +
  PaidAmount :: float64
  PaidStatus :: paid_status
  Outstanding :: float64
  PaymentDate :: "scalar option"

text \<open>
  A row of \<open>membership_payments.csv\<close>, and the dictionary made of it for the list
  \<open>resolved_payments\<close>, which has two more keys. The amount is a number; an empty cell is
  the not-a-number, and a column of integers is used as floats when it is added.
\<close>

record payment =
  p_StudentID :: scalar
  p_FullName :: "ustr cell"
  p_Amount :: float64
  p_PaymentDate :: scalar
  p_NormalizedName :: ustr

datatype match_type = Unmatched | StudentID | FuzzyName

record resolved_payment = payment +
  ResolvedStudentID :: "scalar option"
  MatchType :: match_type

record suggestion =
  EnteredName :: "ustr cell"
  SuggestedName :: "ustr cell"

text \<open>
  A row of \<open>external_bookings.csv\<close>, and the row with the three columns that
  \<open>validate_external_bookings\<close> adds.
\<close>

record booking =
  e_BookingID :: scalar
  e_FullName :: "ustr cell"
  e_StartTime :: scalar
  e_Hours :: float64
  e_AmountPaid :: float64
  e_NormalizedName :: ustr

record checked_booking = booking +
  e_Expected :: float64
  e_Underpaid :: bool
  e_MissingPayment :: bool

text \<open>
  \<open>load_and_preprocess_data\<close>: the three tables read from the files are the arguments;
  the function sets the column \<open>NormalizedName\<close> of each.
\<close>

definition load_and_preprocess_data ::
  "member list \<Rightarrow> payment list \<Rightarrow> booking list \<Rightarrow> member list \<times> payment list \<times> booking list" where
  "load_and_preprocess_data members payments external =
     (map (\<lambda>m. m\<lparr>m_NormalizedName := normalize_name (m_FullName m)\<rparr>) members,
      map (\<lambda>p. p\<lparr>p_NormalizedName := normalize_name (p_FullName p)\<rparr>) payments,
      map (\<lambda>e. e\<lparr>e_NormalizedName := normalize_name (e_FullName e)\<rparr>) external)"


section \<open>Reconciliation of memberships\<close>

text \<open>
  The rows that satisfy a mask keep their order, so \<open>match.index[0]\<close> is the first row that
  satisfies it, and \<open>match.empty\<close> says that there is none.
\<close>

fun first_index :: "('a \<Rightarrow> bool) \<Rightarrow> 'a list \<Rightarrow> nat option" where
  "first_index P [] = None"
| "first_index P (x # xs) = (if P x then Some 0 else map_option Suc (first_index P xs))"

text \<open>The row of \<open>selected_players\<close> made of a selected member (lines 34 to 40).\<close>

definition new_player :: "member \<Rightarrow> player" where
  "new_player m =
     \<lparr>m_StudentID = m_StudentID m, m_FullName = m_FullName m, m_Team = m_Team m,
      m_IsSelectedOfficialTeam = m_IsSelectedOfficialTeam m,
      m_NormalizedName = m_NormalizedName m,
      PaidAmount = Fin 0 0, PaidStatus = Unpaid, Outstanding = ANNUAL_FEE, PaymentDate = None\<rparr>"

text \<open>\<open>payment.to_dict()\<close> with the two keys set at lines 50 and 51.\<close>

definition to_dict :: "payment \<Rightarrow> resolved_payment" where
  "to_dict payment =
     \<lparr>p_StudentID = p_StudentID payment, p_FullName = p_FullName payment,
      p_Amount = p_Amount payment, p_PaymentDate = p_PaymentDate payment,
      p_NormalizedName = p_NormalizedName payment,
      ResolvedStudentID = None, MatchType = Unmatched\<rparr>"

text \<open>
  \<open>max(0, x)\<close> of Python is \<open>x\<close> when \<open>x > 0\<close> holds and 0 otherwise, also when \<open>x\<close> is not a
  number.
\<close>

definition max0 :: "float64 \<Rightarrow> float64" where
  "max0 x = (if fgt x (Fin 0 0) then x else Fin 0 0)"

text \<open>
  The three assignments to the matched row (lines 58 to 60, and again 91 to 93): the amount
  is added, the outstanding amount recomputed, the date overwritten.
\<close>

definition accumulate :: "payment \<Rightarrow> player \<Rightarrow> player" where
  "accumulate payment pl =
     (let paid = fadd (PaidAmount pl) (p_Amount payment)
      in pl\<lparr>PaidAmount := paid, Outstanding := max0 (fsub ANNUAL_FEE paid),
            PaymentDate := Some (p_PaymentDate payment)\<rparr>)"

text \<open>The local variables of \<open>reconcile_memberships\<close> that the two passes change.\<close>

record recon_state =
  selected_players :: "player list"
  matched_payment_indices :: "nat set"
  fuzzy_suggestions :: "suggestion list"
  resolved_payments :: "resolved_payment list"

text \<open>One iteration of the first pass (lines 48 to 65), on the row \<open>payment\<close> of index \<open>idx\<close>.\<close>

definition first_pass_step :: "recon_state \<Rightarrow> nat \<times> payment \<Rightarrow> recon_state" where
  "first_pass_step st row =
     (let idx = fst row; payment = snd row; resolved_payment = to_dict payment
      in if \<not> isna_scalar (p_StudentID payment)
         then (case first_index (\<lambda>pl. series_eq (m_StudentID pl) (p_StudentID payment))
                      (selected_players st) of
                 Some matched_idx \<Rightarrow>
                   let players = (selected_players st)
                         [matched_idx := accumulate payment (selected_players st ! matched_idx)]
                   in st\<lparr>selected_players := players,
                         matched_payment_indices := insert idx (matched_payment_indices st),
                         resolved_payments := resolved_payments st @
                           [resolved_payment
                              \<lparr>ResolvedStudentID := Some (m_StudentID (players ! matched_idx)),
                               MatchType := StudentID\<rparr>]\<rparr>
               | None \<Rightarrow>
                   st\<lparr>resolved_payments := resolved_payments st @ [resolved_payment]\<rparr>)
         else st\<lparr>resolved_payments := resolved_payments st @ [resolved_payment]\<rparr>)"

text \<open>
  One iteration of the second pass (lines 70 to 107). \<open>all_selected_names\<close> is the list made
  once at line 68. The loop over \<open>resolved_payments\<close> at lines 97 to 100 changes every
  dictionary of that normalized name that is still \<open>Unmatched\<close>.
\<close>

definition second_pass_step :: "ustr list \<Rightarrow> recon_state \<Rightarrow> nat \<times> payment \<Rightarrow> recon_state" where
  "second_pass_step all_selected_names st row =
     (let idx = fst row; payment = snd row
      in if idx \<in> matched_payment_indices st then st
         else
           let normalized_payment_name = normalize_name (p_FullName payment)
           in if normalized_payment_name = [] then st
              else (case get_close_matches normalized_payment_name all_selected_names FUZZY_CUTOFF of
                      [] \<Rightarrow> st
                    | matched_name # _ \<Rightarrow>
                        (case first_index (\<lambda>pl. m_NormalizedName pl = matched_name)
                                (selected_players st) of
                           None \<Rightarrow> st
                         | Some matched_idx \<Rightarrow>
                             let players = (selected_players st)
                                   [matched_idx := accumulate payment (selected_players st ! matched_idx)]
                             in st\<lparr>selected_players := players,
                                   matched_payment_indices := insert idx (matched_payment_indices st),
                                   resolved_payments :=
                                     map (\<lambda>rp. if p_NormalizedName rp = normalized_payment_name
                                                  \<and> MatchType rp = Unmatched
                                               then rp\<lparr>ResolvedStudentID :=
                                                         Some (m_StudentID (players ! matched_idx)),
                                                       MatchType := FuzzyName\<rparr>
                                               else rp)
                                         (resolved_payments st),
                                   fuzzy_suggestions :=
                                     (if normalized_payment_name \<noteq> matched_name
                                      then fuzzy_suggestions st @
                                             [\<lparr>EnteredName = p_FullName payment,
                                               SuggestedName = m_FullName (players ! matched_idx)\<rparr>]
                                      else fuzzy_suggestions st)\<rparr>)))"

text \<open>The status of a row from its final amount (lines 110 to 116).\<close>

definition update_status :: "player \<Rightarrow> player" where
  "update_status pl =
     (if fge (PaidAmount pl) ANNUAL_FEE then pl\<lparr>PaidStatus := Paid\<rparr>
      else if fgt (PaidAmount pl) (Fin 0 0) then pl\<lparr>PaidStatus := Underpaid\<rparr>
      else pl\<lparr>PaidStatus := Unpaid\<rparr>)"

text \<open>
  The flag \<open>payment_matched\<close> of lines 127 to 135: the identifier of the payment is among
  those of all members, or else its normalized name is among theirs.
\<close>

definition payment_matched :: "member list \<Rightarrow> payment \<Rightarrow> bool" where
  "payment_matched members_df payment =
     (let all_member_ids = map m_StudentID members_df;
          by_id = (\<not> isna_scalar (p_StudentID payment)
                   \<and> (\<exists>v \<in> set all_member_ids. set_eq v (p_StudentID payment)))
      in if \<not> by_id \<and> \<not> isna (p_FullName payment)
         then normalize_name (p_FullName payment) \<in> set (map m_NormalizedName members_df)
         else by_id)"

text \<open>
  \<open>reconcile_memberships\<close>. The payments are numbered from 0 in the order of the file, the
  index that \<open>read_csv\<close> gives. Line 137 appends a payment to \<open>paid_not_selected\<close> when the
  flag is false.
\<close>

definition reconcile_memberships ::
  "member list \<Rightarrow> payment list \<Rightarrow>
     player list \<times> suggestion list \<times> payment list \<times> resolved_payment list \<times> resolved_payment list" where
  "reconcile_memberships members_df payments_df =
     (let selected = map new_player
            (filter (\<lambda>m. series_eq (m_IsSelectedOfficialTeam m) (StrV (of_literal ''Yes'')))
               members_df);
          st0 = \<lparr>selected_players = selected, matched_payment_indices = {},
                 fuzzy_suggestions = [], resolved_payments = []\<rparr>;
          st1 = foldl first_pass_step st0 (enumerate 0 payments_df);
          all_selected_names = map m_NormalizedName (selected_players st1);
          st2 = foldl (second_pass_step all_selected_names) st1 (enumerate 0 payments_df);
          players = map update_status (selected_players st2);
          paid_not_selected = map snd
            (filter (\<lambda>row. fst row \<notin> matched_payment_indices st2
                            \<and> \<not> payment_matched members_df (snd row))
               (enumerate 0 payments_df));
          unmatched_payments = filter (\<lambda>rp. MatchType rp = Unmatched) (resolved_payments st2)
      in (players, fuzzy_suggestions st2, paid_not_selected, unmatched_payments,
          resolved_payments st2))"


section \<open>External bookings and the summary\<close>



text \<open>
  Errors of Python are values. The division \<open>/\<close> of two integers raises
  \<open>ZeroDivisionError\<close> on a zero divisor and otherwise gives the float nearest to the
  quotient.
\<close>

datatype py_error = ZeroDivisionError

definition int_truediv :: "int \<Rightarrow> int \<Rightarrow> py_error + float64" where
  "int_truediv a b =
     (if b = 0 then Inl ZeroDivisionError
      else if b > 0 then Inr (round_frac a b) else Inr (round_frac (- a) (- b)))"

text \<open>
  The clock that \<open>datetime.now()\<close> reads is an argument. The format
  \<open>%Y-%m-%d %H:%M:%S\<close> prints six of the seven fields, in decimal and separated; the text is
  represented by those six numbers.
\<close>

record datetime =
  year :: nat
  month :: nat
  day :: nat
  hour :: nat
  minute :: nat
  second :: nat
  microsecond :: nat

definition strftime :: "datetime \<Rightarrow> nat \<times> nat \<times> nat \<times> nat \<times> nat \<times> nat" where
  "strftime d = (year d, month d, day d, hour d, minute d, second d)"

text \<open>
  \<open>generate_summary\<close> puts values into a fixed text. The record holds, in the order of the
  text, the values that do not come from a sum of a column: the time, the counts, the
  mismatch rate, which the text shows with one decimal, and the expected membership
  revenue. The four sums of columns and their differences, which pandas computes, are not
  represented.
\<close>

record summary =
  generated :: "nat \<times> nat \<times> nat \<times> nat \<times> nat \<times> nat"
  total_selected :: nat
  paid_count :: nat
  underpaid_count :: nat
  unpaid_count :: nat
  mismatch_rate :: float64
  membership_expected :: float64
  total_bookings :: nat
  external_issues_count :: nat
  non_selected_payments_count :: nat
  unmatched_payments_count :: nat

definition generate_summary ::
  "datetime \<Rightarrow> player list \<Rightarrow> payment list \<Rightarrow> resolved_payment list \<Rightarrow>
     checked_booking list \<Rightarrow> checked_booking list \<Rightarrow> py_error + summary" where
  "generate_summary now players paid_not_selected unmatched_payments external_df external_issues =
     (let total = length players;
          paid = length (filter (\<lambda>pl. PaidStatus pl = Paid) players);
          underpaid = length (filter (\<lambda>pl. PaidStatus pl = Underpaid) players);
          unpaid = length (filter (\<lambda>pl. PaidStatus pl = Unpaid) players)
      in case (if total > 0
               then (case int_truediv (int (underpaid + unpaid)) (int total) of
                       Inl err \<Rightarrow> Inl err
                     | Inr q \<Rightarrow> Inr (fmul q (float_of_int 100)))
               else Inr (Fin 0 0)) of
           Inl err \<Rightarrow> Inl err
         | Inr rate \<Rightarrow>
             Inr \<lparr>generated = strftime now,
                  total_selected = total, paid_count = paid,
                  underpaid_count = underpaid, unpaid_count = unpaid,
                  mismatch_rate = rate,
                  membership_expected = fmul (float_of_int (int total)) ANNUAL_FEE,
                  total_bookings = length external_df,
                  external_issues_count = length external_issues,
                  non_selected_payments_count = length paid_not_selected,
                  unmatched_payments_count = length unmatched_payments\<rparr>)"


section \<open>Example tables\<close>

text \<open>
  Rows used to run the program on concrete tables: two selected members, a member who is
  not selected, and payments and a booking that refer to them or to nobody.
\<close>

definition alice :: member where
  "alice = \<lparr>m_StudentID = StrV (of_literal ''S1''), m_FullName = Val (of_literal ''Alice Smith''),
      m_Team = StrV (of_literal ''Hockey''), m_IsSelectedOfficialTeam = StrV (of_literal ''Yes''),
      m_NormalizedName = of_literal ''alice smith''\<rparr>"

definition bob :: member where
  "bob = \<lparr>m_StudentID = StrV (of_literal ''S2''), m_FullName = Val (of_literal ''Bob Jones''),
      m_Team = StrV (of_literal ''Hockey''), m_IsSelectedOfficialTeam = StrV (of_literal ''No''),
      m_NormalizedName = of_literal ''bob jones''\<rparr>"

definition refund_alice :: payment where
  "refund_alice = \<lparr>p_StudentID = StrV (of_literal ''S1''), p_FullName = Val (of_literal ''Alice Smith''),
      p_Amount = float_of_int (- 10), p_PaymentDate = StrV (of_literal ''2024-01-10''),
      p_NormalizedName = of_literal ''alice smith''\<rparr>"

definition payment_bob :: payment where
  "payment_bob = \<lparr>p_StudentID = FloatV FNaN, p_FullName = Val (of_literal ''Bob Jones''),
      p_Amount = float_of_int 120, p_PaymentDate = StrV (of_literal ''2024-01-11''),
      p_NormalizedName = of_literal ''bob jones''\<rparr>"

definition payment_stranger :: payment where
  "payment_stranger = \<lparr>p_StudentID = FloatV FNaN, p_FullName = Val (of_literal ''Zed Quux''),
      p_Amount = float_of_int 120, p_PaymentDate = StrV (of_literal ''2024-01-12''),
      p_NormalizedName = of_literal ''zed quux''\<rparr>"


definition clock0 :: datetime where
  "clock0 = \<lparr>year = 2024, month = 1, day = 15, hour = 9, minute = 30, second = 0,
      microsecond = 0\<rparr>"


definition three_players :: "player list" where
  "three_players =
     [(new_player alice)\<lparr>PaidAmount := float_of_int 120, PaidStatus := Paid\<rparr>,
      (new_player alice)\<lparr>PaidAmount := float_of_int 50, PaidStatus := Underpaid\<rparr>,
      (new_player alice)\<lparr>PaidStatus := Unpaid\<rparr>]"


section \<open>Properties of name normalisation\<close>

lemma dropWhile_snoc_keep: "\<not> P x \<Longrightarrow> dropWhile P (ys @ [x]) = dropWhile P ys @ [x]"
  by (induction ys) auto

lemma strip_Cons:
  "\<not> isspace x \<Longrightarrow> rev (dropWhile isspace (rev (x # t))) = x # rev (dropWhile isspace (rev t))"
  by (simp add: dropWhile_snoc_keep)

lemma strip_hd: "strip s \<noteq> [] \<Longrightarrow> \<not> isspace (hd (strip s))"
proof -
  assume a: "strip s \<noteq> []"
  let ?t = "dropWhile isspace s"
  have "?t = [] \<Longrightarrow> strip s = []" by (simp only: strip_def rev.simps dropWhile.simps)
  with a have t: "?t \<noteq> []" by blast
  have h: "\<not> isspace (hd ?t)" using t by (rule hd_dropWhile)
  obtain x t' where xt: "?t = x # t'" using t by (cases ?t) auto
  with h have "\<not> isspace x" by simp
  then have "strip s = x # rev (dropWhile isspace (rev t'))"
    unfolding strip_def xt by (rule strip_Cons)
  with \<open>\<not> isspace x\<close> show ?thesis by simp
qed

lemma strip_last: "strip s \<noteq> [] \<Longrightarrow> \<not> isspace (last (strip s))"
  unfolding strip_def by (simp add: last_rev hd_dropWhile)

lemma rds_nil: "(replace_double_space s = []) = (s = [])"
  by (induction s rule: replace_double_space.induct) auto

lemma rds_hd: "s \<noteq> [] \<Longrightarrow> hd (replace_double_space s) = hd s"
  by (induction s rule: replace_double_space.induct) auto

lemma rds_last: "s \<noteq> [] \<Longrightarrow> last (replace_double_space s) = last s"
  by (induction s rule: replace_double_space.induct) (auto simp: rds_nil)

lemma rds_no_double: "\<not> triple_space s \<Longrightarrow> \<not> double_space (replace_double_space s)"
proof (induction s rule: replace_double_space.induct)
  case (1 a b s)
  show ?case
  proof (cases "a = 32 \<and> b = 32")
    case True
    then show ?thesis using 1 by (cases s; cases "tl s") (auto split: if_splits)
  next
    case False
    then show ?thesis using 1 by (cases s) (auto split: if_splits)
  qed
qed auto

lemma rds_double: "triple_space s \<Longrightarrow> double_space (replace_double_space s)"
proof (induction s rule: replace_double_space.induct)
  case (1 a b s)
  show ?case
  proof (cases "a = 32 \<and> b = 32")
    case True
    then show ?thesis using 1 by (cases s; cases "tl s") (auto split: if_splits)
  next
    case False
    then show ?thesis using 1 by (cases s) (auto split: if_splits)
  qed
qed auto

lemma rds_run_head:
  "v = [] \<or> hd v \<noteq> 32 \<Longrightarrow>
     replace_double_space (replicate k 32 @ v) = replicate ((k + 1) div 2) 32 @ replace_double_space v"
proof (induction k rule: less_induct)
  case (less k)
  show ?case
  proof (cases k)
    case 0
    then show ?thesis by simp
  next
    case (Suc m)
    show ?thesis
    proof (cases m)
      case 0
      with Suc less.prems show ?thesis by (cases v) auto
    next
      case (Suc n)
      with \<open>k = Suc m\<close> have k: "k = Suc (Suc n)" by simp
      have "replace_double_space (replicate n 32 @ v)
              = replicate ((n + 1) div 2) 32 @ replace_double_space v"
        using less.IH[of n] less.prems k by simp
      then show ?thesis unfolding k by simp
    qed
  qed
qed

lemma rds_single: "a \<noteq> 32 \<Longrightarrow> replace_double_space (a # w) = a # replace_double_space w"
  by (cases w) auto

lemma rds_append:
  "u = [] \<or> last u \<noteq> 32 \<Longrightarrow>
     replace_double_space (u @ w) = replace_double_space u @ replace_double_space w"
proof (induction u rule: replace_double_space.induct)
  case (1 a b s)
  show ?case
  proof (cases "a = 32 \<and> b = 32")
    case True
    then have "s \<noteq> []" using "1.prems" by auto
    then have "s = [] \<or> last s \<noteq> 32" using "1.prems" by auto
    then show ?thesis using True "1.IH"(1) by simp
  next
    case False
    have "b # s = [] \<or> last (b # s) \<noteq> 32" using "1.prems" by auto
    then show ?thesis using False "1.IH"(2) by auto
  qed
qed (auto simp: rds_single)

lemma rds_run:
  assumes "u = [] \<or> last u \<noteq> 32" "v = [] \<or> hd v \<noteq> 32"
  shows "replace_double_space (u @ replicate k 32 @ v)
           = replace_double_space u @ replicate ((k + 1) div 2) 32 @ replace_double_space v"
  using rds_append[OF assms(1)] rds_run_head[OF assms(2)] by simp

lemma set_strip: "set (strip s) \<subseteq> set s"
  unfolding strip_def by (auto dest!: set_dropWhileD)

lemma set_rds: "set (replace_double_space s) \<subseteq> set s"
  by (induction s rule: replace_double_space.induct) auto

lemma lookup_delta_above:
  "lookup_delta c tab = Some d \<Longrightarrow> list_all (\<lambda>(lo, hi, step, d). 90 < lo + d) tab \<Longrightarrow> 90 < c + d"
  by (induction tab) (auto split: if_splits)

lemma lower_table_above: "list_all (\<lambda>(lo, hi, step, d). 90 < lo + d) lower_table"
  by (simp add: lower_table_def)

lemma lower_char_no_capital: "x \<in> set (lower_char c) \<Longrightarrow> \<not> (65 \<le> x \<and> x \<le> 90)"
  using lookup_delta_above[OF _ lower_table_above, of c]
  by (auto simp: lower_char_def split: if_splits option.splits)

lemma lower_from_no_capital: "x \<in> set (lower_from before s) \<Longrightarrow> \<not> (65 \<le> x \<and> x \<le> 90)"
proof (induction s arbitrary: before)
  case Nil
  then show ?case by simp
next
  case (Cons c cs)
  then show ?case using lower_char_no_capital[of x c] by (auto split: if_splits)
qed

text \<open>
  Claim C4, as stated: the result of \<open>normalize_name\<close> never contains two consecutive
  spaces. This fails: \<open>replace\<close> makes one pass, so a run of three spaces inside a name
  leaves two.
\<close>

theorem normalize_name_double_space_counterexample:
  "\<not> (\<forall>s. \<not> double_space (normalize_name (Val s)))"
proof
  assume "\<forall>s. \<not> double_space (normalize_name (Val s))"
  then have "\<not> double_space (normalize_name (Val (of_literal ''a   b'')))" by blast
  moreover have "normalize_name (Val (of_literal ''a   b'')) = of_literal ''a  b''" by code_simp
  moreover have "double_space (of_literal ''a  b'')" by code_simp
  ultimately show False by simp
qed

text \<open>
  Claim C4, amended: \<open>normalize_name\<close> returns the empty string for a missing value. For a
  string, let \<open>t\<close> be the string lowercased, then trimmed. The result has no letter \<open>A\<close> to \<open>Z\<close>
  and neither begins nor ends with whitespace. One pass of the replacement turns every
  maximal run of \<open>k\<close> spaces of \<open>t\<close> into a run of \<open>(k + 1) div 2\<close> spaces, so the result has two
  consecutive spaces exactly when \<open>t\<close> has three.
\<close>

theorem normalize_name_spec:
  "normalize_name NaN = [] \<and>
   (\<forall>c \<in> set (normalize_name (Val s)). \<not> (65 \<le> c \<and> c \<le> 90)) \<and>
   (normalize_name (Val s) \<noteq> [] \<longrightarrow>
      \<not> isspace (hd (normalize_name (Val s))) \<and> \<not> isspace (last (normalize_name (Val s)))) \<and>
   (double_space (normalize_name (Val s)) \<longleftrightarrow> triple_space (strip (lower s))) \<and>
   (\<forall>u k v. strip (lower s) = u @ replicate k 32 @ v \<and> (u = [] \<or> last u \<noteq> 32)
        \<and> (v = [] \<or> hd v \<noteq> 32) \<longrightarrow>
      normalize_name (Val s)
        = replace_double_space u @ replicate ((k + 1) div 2) 32 @ replace_double_space v)"
proof -
  have n: "normalize_name (Val s) = replace_double_space (strip (lower s))"
    by (simp add: normalize_name_def isna_def)
  have z: "normalize_name NaN = []" by (simp add: normalize_name_def isna_def)
  have l: "\<forall>c \<in> set (normalize_name (Val s)). \<not> (65 \<le> c \<and> c \<le> 90)"
    unfolding n lower_def
    using set_rds[of "strip (lower_from [] s)"] set_strip[of "lower_from [] s"]
      lower_from_no_capital[of _ "[]" s]
    by blast
  have e: "normalize_name (Val s) \<noteq> [] \<longrightarrow>
      \<not> isspace (hd (normalize_name (Val s))) \<and> \<not> isspace (last (normalize_name (Val s)))"
    unfolding n by (simp add: rds_nil rds_hd rds_last strip_hd strip_last)
  have d: "double_space (normalize_name (Val s)) \<longleftrightarrow> triple_space (strip (lower s))"
    unfolding n using rds_no_double[of "strip (lower s)"] rds_double[of "strip (lower s)"] by blast
  have r: "\<forall>u k v. strip (lower s) = u @ replicate k 32 @ v \<and> (u = [] \<or> last u \<noteq> 32)
        \<and> (v = [] \<or> hd v \<noteq> 32) \<longrightarrow>
      normalize_name (Val s)
        = replace_double_space u @ replicate ((k + 1) div 2) 32 @ replace_double_space v"
    unfolding n using rds_run by metis
  show ?thesis using z l e d r by blast
qed

theorem normalize_name_spec_witness:
  "normalize_name (Val (of_literal ''  John  SMITH '')) \<noteq> [] \<and>
   strip (lower (of_literal ''  John  SMITH ''))
     = of_literal ''john'' @ replicate 2 32 @ of_literal ''smith'' \<and>
   \<not> isspace (hd (normalize_name (Val (of_literal ''  John  SMITH '')))) \<and>
   normalize_name (Val (of_literal ''  John  SMITH ''))
     = replace_double_space (of_literal ''john'') @ replicate ((2 + 1) div 2) 32
         @ replace_double_space (of_literal ''smith'')"
proof -
  let ?s = "of_literal ''  John  SMITH ''"
  have h1: "normalize_name (Val ?s) \<noteq> []" by code_simp
  have h2: "strip (lower ?s) = of_literal ''john'' @ replicate 2 32 @ of_literal ''smith''"
    by code_simp
  have h3: "of_literal ''john'' = [] \<or> last (of_literal ''john'') \<noteq> 32" by code_simp
  have h4: "of_literal ''smith'' = [] \<or> hd (of_literal ''smith'') \<noteq> 32" by code_simp
  show ?thesis using h1 h2 h3 h4 normalize_name_spec[of ?s] by blast
qed


section \<open>Properties of the booking validator and the summary\<close>





text \<open>
  Claim C8: \<open>generate_summary\<close> returns a summary and raises no division error, also for
  an empty table of players. Its mismatch rate is 0 for the empty table. Otherwise it is
  the number of players whose status is \<open>Underpaid\<close> plus the number of those whose status
  is \<open>Unpaid\<close>, divided by the number of players, times 100, the quotient and the product
  being those of binary64 arithmetic.
\<close>

theorem generate_summary_mismatch_rate:
  "\<exists>s. generate_summary now players pns ump ext iss = Inr s \<and>
       mismatch_rate s =
         (if players = [] then Fin 0 0
          else fmul (round_frac
                       (int (length (filter (\<lambda>pl. PaidStatus pl = Underpaid) players)
                             + length (filter (\<lambda>pl. PaidStatus pl = Unpaid) players)))
                       (int (length players)))
                 (float_of_int 100))"
  by (simp add: generate_summary_def Let_def int_truediv_def)

theorem generate_summary_mismatch_rate_witness:
  "three_players \<noteq> [] \<and>
   (\<exists>s. generate_summary clock0 three_players [] [] [] [] = Inr s \<and>
        mismatch_rate s = Fin 2345624805922133 (- 45)) \<and>
   (\<exists>s. generate_summary clock0 [] [] [] [] [] = Inr s \<and> mismatch_rate s = Fin 0 0)"
proof -
  have h: "three_players \<noteq> []" by (simp add: three_players_def)
  have v: "fmul (round_frac
                       (int (length (filter (\<lambda>pl. PaidStatus pl = Underpaid) three_players)
                             + length (filter (\<lambda>pl. PaidStatus pl = Unpaid) three_players)))
                       (int (length three_players)))
                 (float_of_int 100) = Fin 2345624805922133 (- 45)"
    by code_simp
  show ?thesis
    using h v generate_summary_mismatch_rate[of clock0 three_players "[]" "[]" "[]" "[]"]
      generate_summary_mismatch_rate[of clock0 "[]" "[]" "[]" "[]" "[]"]
    by simp
qed





section \<open>Properties of the reconciliation\<close>

lemma not_fle_iff: "x \<noteq> FNaN \<Longrightarrow> y \<noteq> FNaN \<Longrightarrow> (\<not> fle y x) = fless x y"
  by (cases x; cases y) (auto simp: fle_def Let_def min.commute)

lemma not_fgt_zero_iff: "(\<not> fgt x (Fin 0 0)) = (x = FNaN \<or> fle x (Fin 0 0))"
  by (cases x) (auto simp: fgt_def fle_def Let_def zero_less_mult_iff mult_less_0_iff)

lemma fgt_not_nan: "fgt x y \<Longrightarrow> x \<noteq> FNaN"
  by (cases x; cases y) (auto simp: fgt_def)

lemma fge_fee_pos:
  assumes "fge x (Fin 15 3)"
  shows "fgt x (Fin 0 0)"
proof (cases x)
  case (Fin m e)
  have "(15::int) * 2 ^ nat (3 - min 3 e) \<le> m * 2 ^ nat (e - min 3 e)"
    using assms Fin by (auto simp: fge_def fle_def Let_def)
  moreover have "(0::int) < 15 * 2 ^ nat (3 - min 3 e)" by simp
  ultimately have "0 < m * 2 ^ nat (e - min 3 e)" by linarith
  then have "0 < m" by (simp add: zero_less_mult_iff)
  then show ?thesis using Fin by (simp add: fgt_def Let_def zero_less_mult_iff)
next
  case PInf
  then show ?thesis by (simp add: fgt_def)
next
  case NInf
  then show ?thesis using assms by (simp add: fge_def fle_def)
next
  case FNaN
  then show ?thesis using assms by (simp add: fge_def fle_def)
qed

text \<open>
  Claim C5, as stated: a player is \<open>Unpaid\<close> exactly when the amount paid is 0. A refund
  matched to a player gives a negative amount, and the status is \<open>Unpaid\<close>.
\<close>

theorem unpaid_iff_zero_counterexample:
  "\<not> (\<forall>members_df payments_df. \<forall>pl \<in> set (fst (reconcile_memberships members_df payments_df)).
         (PaidStatus pl = Unpaid) = feq (PaidAmount pl) (Fin 0 0))"
proof
  let ?R = "fst (reconcile_memberships [alice, bob] [refund_alice])"
  assume "\<forall>members_df payments_df. \<forall>pl \<in> set (fst (reconcile_memberships members_df payments_df)).
         (PaidStatus pl = Unpaid) = feq (PaidAmount pl) (Fin 0 0)"
  then have a: "\<forall>pl \<in> set ?R. (PaidStatus pl = Unpaid) = feq (PaidAmount pl) (Fin 0 0)" by blast
  have "map PaidAmount ?R = [Fin (- 5) 1]" by code_simp
  moreover have "map PaidStatus ?R = [Unpaid]" by code_simp
  ultimately obtain pl where "pl \<in> set ?R" "PaidAmount pl = Fin (- 5) 1" "PaidStatus pl = Unpaid"
    by (cases ?R) auto
  with a show False by auto
qed

text \<open>
  Claim C5, amended: in the result of the reconciliation the status of a player is \<open>Paid\<close>
  exactly when the amount paid is at least the fee of 120, \<open>Underpaid\<close> exactly when it is
  above 0 and below the fee, and \<open>Unpaid\<close> exactly when it is 0 or less, or is not a number
  (the sum with an empty amount cell).
\<close>

theorem paid_status_thresholds:
  "pl \<in> set (fst (reconcile_memberships members_df payments_df)) \<Longrightarrow>
     (PaidStatus pl = Paid \<longleftrightarrow> fge (PaidAmount pl) (float_of_int 120)) \<and>
     (PaidStatus pl = Underpaid \<longleftrightarrow>
        fgt (PaidAmount pl) (Fin 0 0) \<and> fless (PaidAmount pl) (float_of_int 120)) \<and>
     (PaidStatus pl = Unpaid \<longleftrightarrow> PaidAmount pl = FNaN \<or> fle (PaidAmount pl) (Fin 0 0))"
proof -
  assume "pl \<in> set (fst (reconcile_memberships members_df payments_df))"
  then obtain pl0 where pl: "pl = update_status pl0"
    by (auto simp: reconcile_memberships_def Let_def)
  have fee: "float_of_int 120 = Fin 15 3" by code_simp
  have amt: "PaidAmount pl = PaidAmount pl0" by (simp add: pl update_status_def)
  have s: "PaidStatus pl = (if fge (PaidAmount pl) (Fin 15 3) then Paid
             else if fgt (PaidAmount pl) (Fin 0 0) then Underpaid else Unpaid)"
    unfolding amt by (simp add: pl update_status_def ANNUAL_FEE_def fee)
  have pos: "fge (PaidAmount pl) (Fin 15 3) \<Longrightarrow> fgt (PaidAmount pl) (Fin 0 0)"
    by (rule fge_fee_pos)
  have lt: "fgt (PaidAmount pl) (Fin 0 0) \<Longrightarrow>
      (\<not> fge (PaidAmount pl) (Fin 15 3)) = fless (PaidAmount pl) (Fin 15 3)"
    unfolding fge_def using not_fle_iff[of "PaidAmount pl" "Fin 15 3"] fgt_not_nan by blast
  show ?thesis
    unfolding fee using s pos lt not_fgt_zero_iff[of "PaidAmount pl"]
    by (auto split: if_splits)
qed

theorem paid_status_thresholds_witness:
  "hd (fst (reconcile_memberships [alice, bob] [refund_alice]))
     \<in> set (fst (reconcile_memberships [alice, bob] [refund_alice])) \<and>
   PaidStatus (hd (fst (reconcile_memberships [alice, bob] [refund_alice]))) = Unpaid \<and>
   (PaidAmount (hd (fst (reconcile_memberships [alice, bob] [refund_alice]))) = FNaN \<or>
    fle (PaidAmount (hd (fst (reconcile_memberships [alice, bob] [refund_alice])))) (Fin 0 0))"
proof -
  have h: "hd (fst (reconcile_memberships [alice, bob] [refund_alice]))
     \<in> set (fst (reconcile_memberships [alice, bob] [refund_alice]))" by code_simp
  have u: "PaidStatus (hd (fst (reconcile_memberships [alice, bob] [refund_alice]))) = Unpaid"
    by code_simp
  show ?thesis using h u paid_status_thresholds[OF h] by blast
qed

text \<open>
  Claim C1 says that a payment not matched to a selected player is listed in
  \<open>paid_not_selected\<close> exactly when its identifier or normalized name is that of some member.
  The program lists the other payments: every payment of \<open>paid_not_selected\<close> has an
  identifier, if any, that no member has, and a normalized name, if it has a name, that no
  member has.
\<close>

theorem paid_not_selected_unknown:
  "p \<in> set (fst (snd (snd (reconcile_memberships members_df payments_df)))) \<Longrightarrow>
     (isna_scalar (p_StudentID p)
      \<or> \<not> (\<exists>v \<in> set (map m_StudentID members_df). set_eq v (p_StudentID p))) \<and>
     (isna (p_FullName p) \<or>
        normalize_name (p_FullName p) \<notin> set (map m_NormalizedName members_df))"
proof -
  assume "p \<in> set (fst (snd (snd (reconcile_memberships members_df payments_df))))"
  then have "\<not> payment_matched members_df p"
    by (auto simp: reconcile_memberships_def Let_def)
  then show ?thesis
    by (auto simp: payment_matched_def Let_def split: if_splits)
qed

theorem paid_not_selected_unknown_witness:
  "fst (snd (snd (reconcile_memberships [alice, bob] [payment_bob, payment_stranger])))
     = [payment_stranger] \<and>
   payment_matched [alice, bob] payment_bob \<and>
   (isna (p_FullName payment_stranger) \<or>
      normalize_name (p_FullName payment_stranger) \<notin> set (map m_NormalizedName [alice, bob]))"
proof -
  have l: "fst (snd (snd (reconcile_memberships [alice, bob] [payment_bob, payment_stranger])))
     = [payment_stranger]" by code_simp
  then have h: "payment_stranger
     \<in> set (fst (snd (snd (reconcile_memberships [alice, bob] [payment_bob, payment_stranger]))))"
    by simp
  have m: "payment_matched [alice, bob] payment_bob" by code_simp
  show ?thesis using l m paid_not_selected_unknown[OF h] by blast
qed

end
